theory Spec2Isabelle
  imports Main
begin

section \<open>Texts and numbers\<close>

text \<open>
  A Python \<open>str\<close> is modelled as a \<open>string\<close>: a list of 8-bit characters, read as
  the code points 0 to 255. Among these the regular expression class \<open>\d\<close> holds the
  ten ASCII digits only. \<open>str_nat\<close> and \<open>str_int\<close> are Python's \<open>str\<close> of an integer.
\<close>

definition is_digit :: "char \<Rightarrow> bool" where
  "is_digit c = (48 \<le> (of_char c :: nat) \<and> (of_char c :: nat) \<le> 57)"

definition digit_char :: "nat \<Rightarrow> char" where
  "digit_char d = char_of (48 + d)"

function str_nat :: "nat \<Rightarrow> string" where
  "str_nat n = (if n < 10 then [digit_char n] else str_nat (n div 10) @ [digit_char (n mod 10)])"
  by pat_completeness auto
termination
  by (relation "measure id") auto

declare str_nat.simps [simp del]

definition str_int :: "int \<Rightarrow> string" where
  "str_int i = (if i < 0 then CHR ''-'' # str_nat (nat (- i)) else str_nat (nat i))"

fun strip_prefix :: "string \<Rightarrow> string \<Rightarrow> string option" where
  "strip_prefix [] s = Some s"
| "strip_prefix (p # ps) [] = None"
| "strip_prefix (p # ps) (c # cs) = (if p = c then strip_prefix ps cs else None)"

definition startswith :: "string \<Rightarrow> string \<Rightarrow> bool" where
  "startswith s p = (strip_prefix p s \<noteq> None)"

section \<open>JSON values\<close>

text \<open>
  The values that \<open>json.loads\<close> returns and \<open>json.dumps\<close> accepts. A \<open>dict\<close> is an
  association list in insertion order. Numbers are integers: the program never computes
  with a number it receives, and floating-point values are left out of the model.
\<close>

datatype json =
    JNull
  | JBool bool
  | JInt int
  | JStr string
  | JArr "json list"
  | JObj "(string \<times> json) list"

text \<open>
  The exceptions that the program meets. \<open>JSONDecodeError\<close> is the class that
  \<open>json.loads\<close> raises for a text that is no JSON; \<open>ValueError\<close> stands for a
  \<open>ValueError\<close> that is no \<open>JSONDecodeError\<close>. \<open>CancelledError\<close>, \<open>KeyboardInterrupt\<close> and
  \<open>SystemExit\<close> derive from \<open>BaseException\<close> and not from \<open>Exception\<close>, so that
  \<open>except Exception\<close> lets them pass: \<open>is_exception e\<close> is \<open>isinstance(e, Exception)\<close>.
\<close>

datatype exn =
    RuntimeError string
  | TypeError
  | KeyError
  | IndexError
  | AttributeError
  | ValueError
  | JSONDecodeError
  | RecursionError
  | InvalidStateError
  | CancelledError
  | KeyboardInterrupt
  | SystemExit

definition is_exception :: "exn \<Rightarrow> bool" where
  "is_exception e = (e \<noteq> CancelledError \<and> e \<noteq> KeyboardInterrupt \<and> e \<noteq> SystemExit)"

subsection \<open>\<open>json.dumps\<close>\<close>

definition hex_char :: "nat \<Rightarrow> char" where
  "hex_char d = (if d < 10 then char_of (48 + d) else char_of (87 + d))"

text \<open>
  With \<open>ensure_ascii\<close> (the default) every character outside the range from the space
  to \<open>~\<close> is escaped, and so are the quote and the backslash.
\<close>

definition escape_char :: "char \<Rightarrow> string" where
  "escape_char c =
     (let n = (of_char c :: nat) in
      if c = CHR ''\"'' then [CHR 0x5C, CHR ''\"'']
      else if n = 0x5C then [CHR 0x5C, CHR 0x5C]
      else if n = 8 then [CHR 0x5C, CHR ''b'']
      else if n = 12 then [CHR 0x5C, CHR ''f'']
      else if n = 10 then [CHR 0x5C, CHR ''n'']
      else if n = 13 then [CHR 0x5C, CHR ''r'']
      else if n = 9 then [CHR 0x5C, CHR ''t'']
      else if 32 \<le> n \<and> n \<le> 126 then [c]
      else [CHR 0x5C, CHR ''u'', CHR ''0'', CHR ''0'', hex_char (n div 16), hex_char (n mod 16)])"

definition dumps_str :: "string \<Rightarrow> string" where
  "dumps_str s = [CHR ''\"''] @ concat (map escape_char s) @ [CHR ''\"'']"

fun join_comma :: "string list \<Rightarrow> string" where
  "join_comma [] = []"
| "join_comma [x] = x"
| "join_comma (x # y # ys) = x @ '', '' @ join_comma (y # ys)"

fun json_dumps :: "json \<Rightarrow> string" where
  "json_dumps JNull = ''null''"
| "json_dumps (JBool b) = (if b then ''true'' else ''false'')"
| "json_dumps (JInt i) = str_int i"
| "json_dumps (JStr s) = dumps_str s"
| "json_dumps (JArr xs) = ''['' @ join_comma (map json_dumps xs) @ '']''"
| "json_dumps (JObj kvs) =
     ''{'' @ join_comma (map (\<lambda>(k, v). dumps_str k @ '': '' @ json_dumps v) kvs) @ ''}''"

subsection \<open>\<open>json.loads\<close>\<close>

text \<open>
  The standard decoder (\<open>strict\<close>, CPython 3.11 or later with its default settings) on
  a fragment of the texts. A scan of a text ends in one of three ways: a value and the
  rest of the text, an exception, or \<open>Beyond\<close>, which says that the text leaves the
  fragment and that the model does not tell what the decoder does with it. Beyond the
  fragment lie the numbers with a fraction or an exponent and the constants \<open>NaN\<close>,
  \<open>Infinity\<close> and \<open>-Infinity\<close> (the decoder makes floating-point values of them),
  the \<open>\u\<close> escapes above \<open>00ff\<close> (characters that a \<open>string\<close> does not have) and the
  texts nested deeper than \<open>max_depth\<close> (the depth at which the decoder raises
  \<open>RecursionError\<close> depends on the stack of the interpreter). The functions of the
  program that decode take the decoder as an argument, so what is proved of them holds
  for every decoder.
\<close>

datatype 'a scan =
    Scanned 'a string
  | Raises exn
  | Beyond

definition max_depth :: nat where
  "max_depth = 100"

text \<open>\<open>sys.get_int_max_str_digits()\<close>: a longer integer literal is a \<open>ValueError\<close>.\<close>

definition int_max_str_digits :: nat where
  "int_max_str_digits = 4300"

definition is_ws :: "char \<Rightarrow> bool" where
  "is_ws c = ((of_char c :: nat) \<in> {32, 9, 10, 13})"

definition skip_ws :: "string \<Rightarrow> string" where
  "skip_ws s = dropWhile is_ws s"

definition hex_val :: "char \<Rightarrow> nat option" where
  "hex_val c =
     (let n = (of_char c :: nat) in
      if 48 \<le> n \<and> n \<le> 57 then Some (n - 48)
      else if 97 \<le> n \<and> n \<le> 102 then Some (n - 87)
      else if 65 \<le> n \<and> n \<le> 70 then Some (n - 55)
      else None)"

definition hex4 :: "char \<Rightarrow> char \<Rightarrow> char \<Rightarrow> char \<Rightarrow> nat option" where
  "hex4 a b c d =
     (case (hex_val a, hex_val b, hex_val c, hex_val d) of
        (Some w, Some x, Some y, Some z) \<Rightarrow> Some (((w * 16 + x) * 16 + y) * 16 + z)
      | _ \<Rightarrow> None)"

definition unescape :: "char \<Rightarrow> char option" where
  "unescape e =
     (if e = CHR ''\"'' then Some (CHR ''\"'')
      else if e = CHR 0x5C then Some (CHR 0x5C)
      else if e = CHR ''/'' then Some (CHR ''/'')
      else if e = CHR ''b'' then Some (CHR 0x08)
      else if e = CHR ''f'' then Some (CHR 0x0C)
      else if e = CHR ''n'' then Some (CHR 0x0A)
      else if e = CHR ''r'' then Some (CHR 0x0D)
      else if e = CHR ''t'' then Some (CHR 0x09)
      else None)"

text \<open>The text after an opening quote, up to the closing one (\<open>strict\<close> mode).\<close>

fun scan_string :: "string \<Rightarrow> string \<Rightarrow> string scan" where
  "scan_string acc [] = Raises JSONDecodeError"
| "scan_string acc (c # cs) =
     (if c = CHR ''\"'' then Scanned (rev acc) cs
      else if c = CHR 0x5C then
        (case cs of
           [] \<Rightarrow> Raises JSONDecodeError
         | e # r \<Rightarrow>
             if e = CHR ''u'' then
               (case r of
                  a # b # c2 # d # r' \<Rightarrow>
                    (case hex4 a b c2 d of
                       None \<Rightarrow> Raises JSONDecodeError
                     | Some n \<Rightarrow> if n < 256 then scan_string (char_of n # acc) r' else Beyond)
                | _ \<Rightarrow> Raises JSONDecodeError)
             else
               (case unescape e of
                  None \<Rightarrow> Raises JSONDecodeError
                | Some ch \<Rightarrow> scan_string (ch # acc) r))
      else if (of_char c :: nat) < 32 then Raises JSONDecodeError
      else scan_string (c # acc) cs)"

definition digits_val :: "string \<Rightarrow> nat" where
  "digits_val ds = foldl (\<lambda>n c. 10 * n + ((of_char c :: nat) - 48)) 0 ds"

text \<open>
  Whether the text after the integer part goes on as a fraction \<open>\.\d+\<close> or an exponent
  \<open>[eE][-+]?\d+\<close>: the number is a floating-point one then.
\<close>

definition float_tail :: "string \<Rightarrow> bool" where
  "float_tail r =
     (case r of
        c # d # r' \<Rightarrow>
          (c = CHR ''.'' \<and> is_digit d) \<or>
          ((c = CHR ''e'' \<or> c = CHR ''E'') \<and>
           (is_digit d \<or>
            ((d = CHR ''+'' \<or> d = CHR ''-'') \<and> (case r' of [] \<Rightarrow> False | x # r'' \<Rightarrow> is_digit x))))
      | _ \<Rightarrow> False)"

text \<open>The integer part \<open>(0|[1-9][0-9]*)\<close> of a number: its digits and the rest.\<close>

definition scan_digits :: "string \<Rightarrow> (string \<times> string) option" where
  "scan_digits s =
     (case s of
        [] \<Rightarrow> None
      | c # cs \<Rightarrow>
          if c = CHR ''0'' then Some ([c], cs)
          else if is_digit c then Some (c # takeWhile is_digit cs, dropWhile is_digit cs)
          else None)"

definition scan_number :: "string \<Rightarrow> json scan" where
  "scan_number s =
     (let negative = (case s of [] \<Rightarrow> False | c # cs \<Rightarrow> c = CHR ''-'') in
      case scan_digits (if negative then tl s else s) of
        None \<Rightarrow> Raises JSONDecodeError
      | Some (ds, r) \<Rightarrow>
          if float_tail r then Beyond
          else if length ds > int_max_str_digits then Raises ValueError
          else Scanned (JInt (if negative then - int (digits_val ds) else int (digits_val ds))) r)"

text \<open>\<open>dict(pairs)\<close>: a repeated key keeps its first place and takes the last value.\<close>

fun dict_update :: "string \<Rightarrow> json \<Rightarrow> (string \<times> json) list \<Rightarrow> (string \<times> json) list" where
  "dict_update k v [] = [(k, v)]"
| "dict_update k v (p # ps) = (if fst p = k then (k, v) # ps else p # dict_update k v ps)"

text \<open>
  The scan of a value, of the elements of an array after \<open>[\<close> and of the members of an
  object after \<open>{\<close>. The first argument bounds the number of calls (\<open>json_scan\<close> gives
  enough for the whole text), the second is the depth still allowed.
\<close>

fun scan_value :: "nat \<Rightarrow> nat \<Rightarrow> string \<Rightarrow> json scan"
  and scan_array :: "nat \<Rightarrow> nat \<Rightarrow> json list \<Rightarrow> string \<Rightarrow> json scan"
  and scan_object :: "nat \<Rightarrow> nat \<Rightarrow> (string \<times> json) list \<Rightarrow> string \<Rightarrow> json scan"
where
  "scan_value 0 depth s = Beyond"
| "scan_value (Suc n) depth s =
     (case s of
        [] \<Rightarrow> Raises JSONDecodeError
      | c # cs \<Rightarrow>
          if c = CHR ''\"'' then
            (case scan_string [] cs of
               Scanned t r \<Rightarrow> Scanned (JStr t) r
             | Raises e \<Rightarrow> Raises e
             | Beyond \<Rightarrow> Beyond)
          else if c = CHR ''{'' then
            (if depth = 0 then Beyond
             else
               (case skip_ws cs of
                  [] \<Rightarrow> Raises JSONDecodeError
                | d # r \<Rightarrow>
                    if d = CHR ''}'' then Scanned (JObj []) r
                    else scan_object n (depth - 1) [] (d # r)))
          else if c = CHR ''['' then
            (if depth = 0 then Beyond
             else
               (case skip_ws cs of
                  [] \<Rightarrow> Raises JSONDecodeError
                | d # r \<Rightarrow>
                    if d = CHR '']'' then Scanned (JArr []) r
                    else scan_array n (depth - 1) [] (d # r)))
          else if startswith s ''null'' then Scanned JNull (drop 4 s)
          else if startswith s ''true'' then Scanned (JBool True) (drop 4 s)
          else if startswith s ''false'' then Scanned (JBool False) (drop 5 s)
          else if startswith s ''NaN'' \<or> startswith s ''Infinity'' \<or> startswith s ''-Infinity''
          then Beyond
          else scan_number s)"
| "scan_array 0 depth acc s = Beyond"
| "scan_array (Suc n) depth acc s =
     (case scan_value n depth s of
        Raises e \<Rightarrow> Raises e
      | Beyond \<Rightarrow> Beyond
      | Scanned v r \<Rightarrow>
          (case skip_ws r of
             [] \<Rightarrow> Raises JSONDecodeError
           | d # r' \<Rightarrow>
               if d = CHR '']'' then Scanned (JArr (acc @ [v])) r'
               else if d = CHR '','' then scan_array n depth (acc @ [v]) (skip_ws r')
               else Raises JSONDecodeError))"
| "scan_object 0 depth acc s = Beyond"
| "scan_object (Suc n) depth acc s =
     (case s of
        [] \<Rightarrow> Raises JSONDecodeError
      | q # cs \<Rightarrow>
          if q \<noteq> CHR ''\"'' then Raises JSONDecodeError
          else
            (case scan_string [] cs of
               Raises e \<Rightarrow> Raises e
             | Beyond \<Rightarrow> Beyond
             | Scanned k r \<Rightarrow>
                 (case skip_ws r of
                    [] \<Rightarrow> Raises JSONDecodeError
                  | colon # r1 \<Rightarrow>
                      if colon \<noteq> CHR '':'' then Raises JSONDecodeError
                      else
                        (case scan_value n depth (skip_ws r1) of
                           Raises e \<Rightarrow> Raises e
                         | Beyond \<Rightarrow> Beyond
                         | Scanned v r2 \<Rightarrow>
                             (case skip_ws r2 of
                                [] \<Rightarrow> Raises JSONDecodeError
                              | d # r3 \<Rightarrow>
                                  if d = CHR ''}'' then Scanned (JObj (dict_update k v acc)) r3
                                  else if d = CHR '','' then
                                    scan_object n depth (dict_update k v acc) (skip_ws r3)
                                  else Raises JSONDecodeError)))))"

text \<open>
  A whole text: a value, then nothing but white space. \<open>None\<close> says that the text lies
  beyond the fragment.
\<close>

definition json_scan :: "string \<Rightarrow> (exn + json) option" where
  "json_scan s =
     (case scan_value (2 * length s + 2) max_depth (skip_ws s) of
        Scanned v r \<Rightarrow> if skip_ws r = [] then Some (Inr v) else Some (Inl JSONDecodeError)
      | Raises e \<Rightarrow> Some (Inl e)
      | Beyond \<Rightarrow> None)"

text \<open>
  \<open>json.loads\<close> as a function: it returns the value or raises. On the texts of the
  fragment it is what \<open>json_scan\<close> finds; beyond the fragment nothing is said of it.
\<close>

definition json_loads :: "string \<Rightarrow> exn + json" where
  "json_loads s = the (json_scan s)"

section \<open>Frame codec\<close>

subsection \<open>\<open>re.split(r"~m~\d+~m~", message)\<close>\<close>

text \<open>
  \<open>match_delim s\<close> is the text after a delimiter \<open>~m~<digits>~m~\<close> at the very start
  of \<open>s\<close>. The digits are taken greedily; a shorter run cannot match, since the
  character after it would be a digit and not \<open>~\<close>.
\<close>

definition match_delim :: "string \<Rightarrow> string option" where
  "match_delim s =
     (case strip_prefix ''~m~'' s of
        None \<Rightarrow> None
      | Some t \<Rightarrow>
          if takeWhile is_digit t = [] then None
          else strip_prefix ''~m~'' (dropWhile is_digit t))"

text \<open>
  The pieces between the delimiters, scanned from the left; \<open>cur\<close> holds the current
  piece in reverse.
\<close>

function re_split_from :: "string \<Rightarrow> string \<Rightarrow> string list" where
  "re_split_from cur s =
     (case match_delim s of
        Some r \<Rightarrow> rev cur # re_split_from [] r
      | None \<Rightarrow>
          (case s of
             [] \<Rightarrow> [rev cur]
           | c # t \<Rightarrow> re_split_from (c # cur) t))"
  by pat_completeness auto
termination
proof (relation "measure (\<lambda>(cur, s). length s)")
  show "wf (measure (\<lambda>(cur, s). length s))"
    by simp
next
  fix cur :: string and s r :: string
  assume m: "match_delim s = Some r"
  have sp: "length y \<le> length x" if "strip_prefix p x = Some y" for p x y
    using that by (induction p x rule: strip_prefix.induct) (auto split: if_splits)
  from m obtain t where t: "strip_prefix ''~m~'' s = Some t"
    by (auto simp: match_delim_def split: option.splits)
  from m t have d: "takeWhile is_digit t \<noteq> []"
    and r: "strip_prefix ''~m~'' (dropWhile is_digit t) = Some r"
    by (auto simp: match_delim_def split: if_splits)
  have "length (dropWhile is_digit t) < length t"
    using d by (cases t) (auto simp: length_dropWhile_le le_imp_less_Suc split: if_splits)
  with sp [OF r] sp [OF t] show "(([], r), (cur, s)) \<in> measure (\<lambda>(cur, s). length s)"
    by simp
next
  fix cur :: string and s :: string and c t
  assume "s = c # t"
  then show "((c # cur, t), (cur, s)) \<in> measure (\<lambda>(cur, s). length s)"
    by simp
qed

declare re_split_from.simps [simp del]

definition re_split :: "string \<Rightarrow> string list" where
  "re_split s = re_split_from [] s"

subsection \<open>\<open>TradingviewClient._parse_message\<close>\<close>

datatype payload =
    Ping string
  | Session json
  | Event json

text \<open>What the program prints: a line of \<open>_parse_message\<close> or of \<open>_notify_subscribers\<close>.\<close>

datatype observation =
    ParseFailure string
  | HandlerError exn

fun is_substring :: "string \<Rightarrow> string \<Rightarrow> bool" where
  "is_substring p [] = (p = [])"
| "is_substring p (c # cs) = (startswith (c # cs) p \<or> is_substring p cs)"

text \<open>\<open>key in parsed\<close>, for a string \<open>key\<close>: a \<open>TypeError\<close> where the value is no container.\<close>

fun py_in :: "string \<Rightarrow> json \<Rightarrow> exn + bool" where
  "py_in k (JObj kvs) = Inr (k \<in> fst ` set kvs)"
| "py_in k (JArr xs) = Inr (JStr k \<in> set xs)"
| "py_in k (JStr s) = Inr (is_substring k s)"
| "py_in k JNull = Inl TypeError"
| "py_in k (JBool b) = Inl TypeError"
| "py_in k (JInt i) = Inl TypeError"

definition frame :: "string \<Rightarrow> string" where
  "frame data = ''~m~'' @ str_nat (length data) @ ''~m~'' @ data"

text \<open>
  The loop over the segments, with the decoder \<open>loads\<close>. Only \<open>JSONDecodeError\<close> is
  caught: any other exception of the decoder, and the \<open>TypeError\<close> of the membership
  test, leave the function, with the lines printed so far.
\<close>

fun parse_events ::
  "(string \<Rightarrow> exn + json) \<Rightarrow> string list \<Rightarrow> payload list \<Rightarrow> observation list
    \<Rightarrow> (exn + payload list) \<times> observation list" where
  "parse_events loads [] result out = (Inr result, out)"
| "parse_events loads (event # events) result out =
     (if startswith event ''~h~'' then
        parse_events loads events (result @ [Ping (frame event)]) out
      else
        (case loads event of
           Inl e \<Rightarrow>
             if e = JSONDecodeError
             then parse_events loads events result (out @ [ParseFailure event])
             else (Inl e, out)
         | Inr parsed \<Rightarrow>
             (case py_in ''session_id'' parsed of
                Inl e \<Rightarrow> (Inl e, out)
              | Inr True \<Rightarrow> parse_events loads events (result @ [Session parsed]) out
              | Inr False \<Rightarrow> parse_events loads events (result @ [Event parsed]) out)))"

definition parse_message ::
  "(string \<Rightarrow> exn + json) \<Rightarrow> string \<Rightarrow> (exn + payload list) \<times> observation list" where
  "parse_message loads message =
     (if message = [] then (Inr [], [])
      else parse_events loads (tl (re_split message)) [] [])"

text \<open>Whether a text holds a delimiter \<open>~m~<digits>~m~\<close> at some position.\<close>

fun has_delim :: "string \<Rightarrow> bool" where
  "has_delim [] = False"
| "has_delim (c # cs) = (match_delim (c # cs) \<noteq> None \<or> has_delim cs)"

subsection \<open>Events\<close>

text \<open>
  \<open>TradingviewEvent\<close>. The read loop builds an event from a decoded frame with
  \<open>payload["data"]["m"]\<close> and \<open>payload["data"]["p"]\<close>, so both fields hold whatever JSON
  value the server sent.
\<close>

record event =
  name :: json
  params :: json

text \<open>\<open>x[k]\<close> for a string \<open>k\<close>, and \<open>x[i]\<close> for an index \<open>i \<ge> 0\<close>.\<close>

fun py_getitem_key :: "json \<Rightarrow> string \<Rightarrow> exn + json" where
  "py_getitem_key (JObj kvs) k = (case map_of kvs k of None \<Rightarrow> Inl KeyError | Some v \<Rightarrow> Inr v)"
| "py_getitem_key (JArr xs) k = Inl TypeError"
| "py_getitem_key (JStr s) k = Inl TypeError"
| "py_getitem_key JNull k = Inl TypeError"
| "py_getitem_key (JBool b) k = Inl TypeError"
| "py_getitem_key (JInt i) k = Inl TypeError"

fun py_getitem_idx :: "json \<Rightarrow> nat \<Rightarrow> exn + json" where
  "py_getitem_idx (JArr xs) i = (if i < length xs then Inr (xs ! i) else Inl IndexError)"
| "py_getitem_idx (JStr s) i = (if i < length s then Inr (JStr [s ! i]) else Inl IndexError)"
| "py_getitem_idx (JObj kvs) i = Inl KeyError"
| "py_getitem_idx JNull i = Inl TypeError"
| "py_getitem_idx (JBool b) i = Inl TypeError"
| "py_getitem_idx (JInt j) i = Inl TypeError"

definition event_of :: "json \<Rightarrow> exn + event" where
  "event_of data =
     (case py_getitem_key data ''m'' of
        Inl e \<Rightarrow> Inl e
      | Inr m \<Rightarrow>
          (case py_getitem_key data ''p'' of
             Inl e \<Rightarrow> Inl e
           | Inr p \<Rightarrow> Inr \<lparr>name = m, params = p\<rparr>))"

section \<open>Connection\<close>

text \<open>
  \<open>TradingviewClient\<close>. \<open>websocket\<close> is \<open>None\<close> until \<open>connect\<close> has opened the socket;
  \<open>close\<close> closes the socket object and keeps it in the field. \<open>subscribers\<close> is the set
  of handlers, a handler being named by its identity. \<open>outbox\<close> lists the frames for
  which \<open>send\<close> has created a write task, in the order of the calls, and \<open>stdout\<close> the
  lines printed.
\<close>

datatype socket = WsOpen | WsClosed

type_synonym hid = nat

record client =
  websocket :: "socket option"
  connected :: bool
  subscribers :: "hid set"
  outbox :: "string list"
  stdout :: "observation list"

text \<open>The frame that \<open>send\<close> builds: \<open>json.dumps({"m": name, "p": params})\<close>, length-prefixed.\<close>

definition encode :: "string \<Rightarrow> json list \<Rightarrow> string" where
  "encode nm ps = frame (json_dumps (JObj [(''m'', JStr nm), (''p'', JArr ps)]))"

definition send ::
  "string \<Rightarrow> json list \<Rightarrow> 'a client_scheme \<Rightarrow> (exn + unit) \<times> 'a client_scheme" where
  "send nm ps c =
     (if websocket c = None then (Inl (RuntimeError ''Not connected to TradingView''), c)
      else (Inr (), c\<lparr>outbox := outbox c @ [encode nm ps]\<rparr>))"

text \<open>
  \<open>close\<close>. \<open>connect\<close> assigns \<open>self._message_task\<close> right after \<open>self.websocket\<close>, with no
  \<open>await\<close> between the two, and \<open>__init__\<close> does not assign it: the attribute exists
  exactly when \<open>websocket\<close> is set. On a client that never opened its socket the test
  \<open>if self._message_task\<close> raises \<open>AttributeError\<close>, before \<open>connected\<close> is touched.
\<close>

definition client_close :: "'a client_scheme \<Rightarrow> (exn + unit) \<times> 'a client_scheme" where
  "client_close c =
     (case websocket c of
        None \<Rightarrow> (Inl AttributeError, c)
      | Some w \<Rightarrow> (Inr (), c\<lparr>websocket := Some WsClosed, connected := False\<rparr>))"

section \<open>Event bus\<close>

text \<open>
  What a call of a handler does: it returns a value, read as a truth value by
  \<open>if handler(event)\<close>, or it raises. A handler is a closure over the
  client, so it is run on the client's state and may change it; the closures are given
  by a function \<open>run\<close> from the identities.
\<close>

datatype outcome =
    Returned bool
  | Raised exn

text \<open>The handler \<open>on_session\<close> that \<open>connect\<close> registers for the handshake.\<close>

definition on_session :: "string \<Rightarrow> event \<Rightarrow> 'a client_scheme \<Rightarrow> outcome \<times> 'a client_scheme" where
  "on_session token ev c =
     (if name ev = JStr ''session_event'' then
        (case send ''set_auth_token'' [JStr token] c of
           (Inl e, c') \<Rightarrow> (Raised e, c')
         | (Inr u, c') \<Rightarrow> (Returned True, c'\<lparr>connected := True\<rparr>))
      else (Returned False, c))"

definition add_event_handler :: "hid \<Rightarrow> 'a client_scheme \<Rightarrow> 'a client_scheme" where
  "add_event_handler h c = c\<lparr>subscribers := insert h (subscribers c)\<rparr>"

definition subscribe :: "hid \<Rightarrow> 'a client_scheme \<Rightarrow> 'a client_scheme" where
  "subscribe h c = c\<lparr>subscribers := insert h (subscribers c)\<rparr>"

definition unsubscribe :: "hid \<Rightarrow> 'a client_scheme \<Rightarrow> 'a client_scheme" where
  "unsubscribe h c = c\<lparr>subscribers := subscribers c - {h}\<rparr>"

definition report :: "outcome \<Rightarrow> 'a client_scheme \<Rightarrow> 'a client_scheme" where
  "report r c = (case r of Returned b \<Rightarrow> c | Raised e \<Rightarrow> c\<lparr>stdout := stdout c @ [HandlerError e]\<rparr>)"

text \<open>
  \<open>for handler in self.subscribers\<close>. A Python set iterates in the order of its hash
  table, which need not be the order of insertion: the loop takes that order as the list
  \<open>hs\<close> of the elements still to visit, and \<open>n\<close> is the size of the set when the loop
  began. Before each step the iterator compares the size of the set with \<open>n\<close> and raises
  \<open>RuntimeError\<close> when a handler has changed it; the error is raised by the \<open>for\<close>
  statement, outside the \<open>try\<close>, and leaves the function. \<open>except Exception\<close> catches
  what a handler raises when it is an \<open>Exception\<close>; anything else leaves the function
  too, before any handler is removed. Where a handler replaces an element and keeps the
  size, the model goes on with the elements as they were; it is exact for handlers that
  leave the set alone or change its size.
\<close>

fun notify_loop ::
  "(hid \<Rightarrow> event \<Rightarrow> 'a client_scheme \<Rightarrow> outcome \<times> 'a client_scheme) \<Rightarrow> event \<Rightarrow> nat
    \<Rightarrow> hid list \<Rightarrow> hid list \<Rightarrow> 'a client_scheme \<Rightarrow> (exn + hid list) \<times> 'a client_scheme" where
  "notify_loop run ev n [] handlers_to_remove c =
     (if card (subscribers c) \<noteq> n
      then (Inl (RuntimeError ''Set changed size during iteration''), c)
      else (Inr handlers_to_remove, c))"
| "notify_loop run ev n (handler # hs) handlers_to_remove c =
     (if card (subscribers c) \<noteq> n
      then (Inl (RuntimeError ''Set changed size during iteration''), c)
      else
        (case run handler ev c of
           (Returned b, c') \<Rightarrow>
             notify_loop run ev n hs
               (if b then handlers_to_remove @ [handler] else handlers_to_remove) c'
         | (Raised e, c') \<Rightarrow>
             if is_exception e
             then notify_loop run ev n hs handlers_to_remove (report (Raised e) c')
             else (Inl e, c')))"

definition notify_subscribers ::
  "(hid set \<Rightarrow> hid list) \<Rightarrow> (hid \<Rightarrow> event \<Rightarrow> 'a client_scheme \<Rightarrow> outcome \<times> 'a client_scheme)
    \<Rightarrow> event \<Rightarrow> 'a client_scheme \<Rightarrow> (exn + unit) \<times> 'a client_scheme" where
  "notify_subscribers iter run ev c =
     (case notify_loop run ev (card (subscribers c)) (iter (subscribers c)) [] c of
        (Inl e, c') \<Rightarrow> (Inl e, c')
      | (Inr handlers_to_remove, c') \<Rightarrow>
          (Inr (), c'\<lparr>subscribers := foldl (\<lambda>s h. s - {h}) (subscribers c') handlers_to_remove\<rparr>))"

text \<open>
  The reference for a publish: every handler of the list is called once, in the order
  of the list, on the state the calls before it have left, and an error is reported.
  The result lists each call with what it did.
\<close>

fun deliveries ::
  "(hid \<Rightarrow> event \<Rightarrow> 'a client_scheme \<Rightarrow> outcome \<times> 'a client_scheme) \<Rightarrow> event \<Rightarrow> hid list
    \<Rightarrow> 'a client_scheme \<Rightarrow> (hid \<times> outcome) list \<times> 'a client_scheme" where
  "deliveries run ev [] c = ([], c)"
| "deliveries run ev (h # hs) c =
     (case run h ev c of
        (r, c') \<Rightarrow>
          (case deliveries run ev hs (report r c') of
             (calls, c'') \<Rightarrow> ((h, r) # calls, c'')))"

text \<open>The handlers of a list of calls that asked for their removal, in the order of the calls.\<close>

definition returned_true :: "(hid \<times> outcome) list \<Rightarrow> hid list" where
  "returned_true calls = map fst (filter (\<lambda>p. snd p = Returned True) calls)"

subsection \<open>Sample handlers\<close>

text \<open>
  Handlers for the instances below. \<open>announce\<close> records the identity of the handler that
  runs and stays registered. Of \<open>sample_handlers\<close>, handler 1 raises a \<open>TypeError\<close>,
  handler 2 asks for its removal, handler 4 raises a \<open>CancelledError\<close> and every other
  one stays; each leaves a mark in \<open>outbox\<close> first. None of them touches the set of
  subscribers.
\<close>

definition announce :: "hid \<Rightarrow> event \<Rightarrow> client \<Rightarrow> outcome \<times> client" where
  "announce h ev c = (Returned False, c\<lparr>outbox := outbox c @ [str_nat h]\<rparr>)"

definition sample_handlers :: "hid \<Rightarrow> event \<Rightarrow> client \<Rightarrow> outcome \<times> client" where
  "sample_handlers h ev c =
     (if h = 1 then (Raised TypeError, c\<lparr>outbox := outbox c @ [''one'']\<rparr>)
      else if h = 2 then (Returned True, c\<lparr>outbox := outbox c @ [''two'']\<rparr>)
      else if h = 4 then (Raised CancelledError, c\<lparr>outbox := outbox c @ [''four'']\<rparr>)
      else (Returned False, c\<lparr>outbox := outbox c @ [''other'']\<rparr>))"

definition idle_client :: client where
  "idle_client = \<lparr>websocket = Some WsOpen, connected = True, subscribers = {},
     outbox = [], stdout = []\<rparr>"

definition some_event :: event where
  "some_event = \<lparr>name = JStr ''du'', params = JArr []\<rparr>"

section \<open>Candle fetch\<close>

text \<open>
  \<open>get_candles\<close> and its closure \<open>handle_event\<close>. The variables that the closure only
  reads make up the record \<open>fetch\<close>: the arguments \<open>symbols\<close>, \<open>amount\<close> (\<open>None\<close> or an
  integer) and \<open>timeframe\<close> (an integer or a string), and the random \<open>chart_session\<close>.
  The variables that it assigns or mutates make up \<open>fetch_state\<close>. \<open>result_future\<close> is
  the \<open>asyncio.Future\<close> that \<open>get_candles\<close> awaits: pending, resolved with a result, or
  cancelled (as happens when the task that awaits it is cancelled).
\<close>

datatype 'a future =
    Pending
  | Resolved 'a
  | Cancelled

definition MAX_BATCH_SIZE :: int where
  "MAX_BATCH_SIZE = 5000"

record candle =
  timestamp :: json
  high :: json
  low :: json
  "open" :: json
  close :: json
  volume :: json

datatype timeframe = TfInt int | TfStr string

text \<open>\<open>str(timeframe)\<close>.\<close>

fun str_timeframe :: "timeframe \<Rightarrow> string" where
  "str_timeframe (TfInt i) = str_int i"
| "str_timeframe (TfStr s) = s"

record fetch =
  symbols :: "string list"
  amount :: "int option"
  timeframe :: timeframe
  chart_session :: string

record fetch_state =
  all_candles :: "candle list list"
  current_sym_index :: nat
  symbol :: string
  current_sym_candles :: "json list"
  result_future :: "candle list future"

text \<open>
  \<open>amount if amount and amount < MAX_BATCH_SIZE else MAX_BATCH_SIZE\<close>: an \<open>amount\<close> of
  \<open>None\<close> or \<open>0\<close> is false.
\<close>

definition batch_size :: "int option \<Rightarrow> int" where
  "batch_size amt =
     (case amt of
        None \<Rightarrow> MAX_BATCH_SIZE
      | Some a \<Rightarrow> if a \<noteq> 0 \<and> a < MAX_BATCH_SIZE then a else MAX_BATCH_SIZE)"

text \<open>
  \<open>xs[:k]\<close> on a list: a negative \<open>k\<close> counts from the end.
\<close>

definition py_slice_to :: "'a list \<Rightarrow> int \<Rightarrow> 'a list" where
  "py_slice_to xs k = (if 0 \<le> k then take (nat k) xs else take (length xs - nat (- k)) xs)"

text \<open>\<open>event.params[1]['sds_1']['s']\<close>.\<close>

definition new_candles_of :: "event \<Rightarrow> exn + json" where
  "new_candles_of ev =
     (case py_getitem_idx (params ev) 1 of
        Inl e \<Rightarrow> Inl e
      | Inr p \<Rightarrow>
          (case py_getitem_key p ''sds_1'' of
             Inl e \<Rightarrow> Inl e
           | Inr q \<Rightarrow> py_getitem_key q ''s''))"

text \<open>
  \<open>Candle(timestamp=c['v'][0], open_price=c['v'][1], high=c['v'][2], low=c['v'][3],
  close=c['v'][4], volume=c['v'][5])\<close>, the arguments being evaluated from left to right,
  and the list comprehension over the rows: the first row that fails raises.
\<close>

definition candle_of :: "json \<Rightarrow> exn + candle" where
  "candle_of c =
     (case py_getitem_key c ''v'' of
        Inl e \<Rightarrow> Inl e
      | Inr v \<Rightarrow>
     (case py_getitem_idx v 0 of Inl e \<Rightarrow> Inl e | Inr t \<Rightarrow>
     (case py_getitem_idx v 1 of Inl e \<Rightarrow> Inl e | Inr op \<Rightarrow>
     (case py_getitem_idx v 2 of Inl e \<Rightarrow> Inl e | Inr hi \<Rightarrow>
     (case py_getitem_idx v 3 of Inl e \<Rightarrow> Inl e | Inr lo \<Rightarrow>
     (case py_getitem_idx v 4 of Inl e \<Rightarrow> Inl e | Inr cl \<Rightarrow>
     (case py_getitem_idx v 5 of Inl e \<Rightarrow> Inl e | Inr vo \<Rightarrow>
        Inr \<lparr>timestamp = t, high = hi, low = lo, open = op, close = cl, volume = vo\<rparr>)))))))"

fun candles_of :: "json list \<Rightarrow> exn + candle list" where
  "candles_of [] = Inr []"
| "candles_of (c # cs) =
     (case candle_of c of
        Inl e \<Rightarrow> Inl e
      | Inr k \<Rightarrow> (case candles_of cs of Inl e \<Rightarrow> Inl e | Inr ks \<Rightarrow> Inr (k # ks)))"

text \<open>The two messages that select a symbol: their parameters.\<close>

definition resolve_symbol_params :: "string \<Rightarrow> nat \<Rightarrow> string \<Rightarrow> json list" where
  "resolve_symbol_params cs i s =
     [JStr cs, JStr (''sds_sym_'' @ str_nat i),
      JStr (''='' @ json_dumps (JObj [(''symbol'', JStr s), (''adjustment'', JStr ''splits'')]))]"

definition modify_series_params :: "string \<Rightarrow> nat \<Rightarrow> timeframe \<Rightarrow> json list" where
  "modify_series_params cs i tf =
     [JStr cs, JStr ''sds_1'', JStr (''s'' @ str_nat i), JStr (''sds_sym_'' @ str_nat i),
      JStr (str_timeframe tf), JStr '''']"

text \<open>
  The condition of \<open>handle_event\<close> for another page, on \<open>loaded_count\<close>:
  \<open>loaded_count > 0 and loaded_count % batch_size == 0 and (not amount or loaded_count <
  amount)\<close>. \<open>batch_size\<close> is never \<open>0\<close>, and \<open>mod\<close> on \<open>int\<close> is Python's \<open>%\<close>.
\<close>

definition more_data_wanted :: "int option \<Rightarrow> int \<Rightarrow> bool" where
  "more_data_wanted amt loaded_count =
     (loaded_count > 0 \<and> loaded_count mod batch_size amt = 0 \<and>
      (case amt of None \<Rightarrow> True | Some a \<Rightarrow> a = 0 \<or> loaded_count < a))"

text \<open>
  \<open>if amount: current_sym_candles = current_sym_candles[:amount]\<close>: the list that the
  variable holds afterwards.
\<close>

definition truncate_to :: "int option \<Rightarrow> json list \<Rightarrow> json list" where
  "truncate_to amt rows =
     (case amt of
        None \<Rightarrow> rows
      | Some a \<Rightarrow> if a \<noteq> 0 then py_slice_to rows a else rows)"

text \<open>
  What \<open>len(new_candles)\<close>, the slice and \<open>new_candles + current_sym_candles\<close> make of
  the rows received and the list accumulated: the rows kept, followed by the list. A
  value that is no list has no \<open>len\<close>, or cannot be added to a list, which is a
  \<open>TypeError\<close>; a dict of more than \<open>batch_size\<close> members is sliced first, which is a
  \<open>KeyError\<close> (CPython 3.12, where a slice is hashable; a \<open>TypeError\<close> before).
\<close>

fun merge_candles :: "int \<Rightarrow> json \<Rightarrow> json list \<Rightarrow> exn + json list" where
  "merge_candles bs (JArr new_candles) acc =
     Inr ((if int (length new_candles) > bs
           then py_slice_to new_candles (int (length new_candles) - int (length acc))
           else new_candles) @ acc)"
| "merge_candles bs (JObj kvs) acc =
     (if int (length kvs) > bs then Inl KeyError else Inl TypeError)"
| "merge_candles bs (JStr s) acc = Inl TypeError"
| "merge_candles bs JNull acc = Inl TypeError"
| "merge_candles bs (JBool b) acc = Inl TypeError"
| "merge_candles bs (JInt i) acc = Inl TypeError"

text \<open>
  \<open>handle_event\<close>, on the state of the closure and the client. The state returned with
  an error is the state at the \<open>raise\<close>. \<open>set_result\<close> on a future that is not pending
  raises \<open>InvalidStateError\<close>.
\<close>

definition handle_event ::
  "fetch \<Rightarrow> event \<Rightarrow> fetch_state \<times> client \<Rightarrow> outcome \<times> fetch_state \<times> client" where
  "handle_event env ev sc =
     (case sc of (st, c) \<Rightarrow>
      if name ev = JStr ''timescale_update'' then
        (case new_candles_of ev of
           Inl e \<Rightarrow> (Raised e, st, c)
         | Inr new_candles \<Rightarrow>
             (case merge_candles (batch_size (amount env)) new_candles (current_sym_candles st) of
                Inl e \<Rightarrow> (Raised e, st, c)
              | Inr merged \<Rightarrow> (Returned False, st\<lparr>current_sym_candles := merged\<rparr>, c)))
      else if name ev = JStr ''series_completed'' \<or> name ev = JStr ''symbol_error'' then
        (if more_data_wanted (amount env) (int (length (current_sym_candles st))) then
           (case send ''request_more_data''
                   [JStr (chart_session env), JStr ''sds_1'', JInt (batch_size (amount env))] c of
              (Inl e, c') \<Rightarrow> (Raised e, st, c')
            | (Inr u, c') \<Rightarrow> (Returned False, st, c'))
         else
           (let st1 = st\<lparr>current_sym_candles :=
                             truncate_to (amount env) (current_sym_candles st)\<rparr>
            in
            case candles_of (current_sym_candles st1) of
              Inl e \<Rightarrow> (Raised e, st1, c)
            | Inr candles \<Rightarrow>
                (let st2 = st1\<lparr>all_candles := all_candles st1 @ [candles]\<rparr> in
                 if int (length (symbols env)) - 1 > int (current_sym_index st2) then
                   (let i = current_sym_index st2 + 1;
                        st3 = st2\<lparr>current_sym_candles := [], current_sym_index := i,
                                symbol := symbols env ! i\<rparr>
                    in
                    case send ''resolve_symbol''
                           (resolve_symbol_params (chart_session env) i (symbol st3)) c of
                      (Inl e, c1) \<Rightarrow> (Raised e, st3, c1)
                    | (Inr u, c1) \<Rightarrow>
                        (case send ''modify_series''
                                (modify_series_params (chart_session env) i (timeframe env)) c1 of
                           (Inl e, c2) \<Rightarrow> (Raised e, st3, c2)
                         | (Inr u, c2) \<Rightarrow> (Returned False, st3, c2)))
                 else
                   (if result_future st2 \<noteq> Pending then (Raised InvalidStateError, st2, c)
                    else
                      (Returned True,
                       st2\<lparr>result_future :=
                             Resolved (if all_candles st2 \<noteq> [] then all_candles st2 ! 0 else [])\<rparr>,
                       c)))))
      else (Returned False, st, c))"

text \<open>
  \<open>get_candles\<close> up to its \<open>await\<close>. \<open>h\<close> is the identity of the new closure and \<open>cs\<close> the
  chart session drawn. The call returns at once for no symbols, raises where a \<open>send\<close>
  does, and otherwise waits for the future with the closure registered.
\<close>

datatype started =
    ReturnedNow "candle list"
  | RaisedNow exn
  | Awaiting fetch fetch_state

definition get_candles ::
  "hid \<Rightarrow> string \<Rightarrow> client \<Rightarrow> string list \<Rightarrow> int option \<Rightarrow> timeframe \<Rightarrow> started \<times> client" where
  "get_candles h cs client syms amt tf =
     (if syms = [] then (ReturnedNow [], client)
      else
        (let env = \<lparr>symbols = syms, amount = amt, timeframe = tf, chart_session = cs\<rparr>;
             st = \<lparr>all_candles = [], current_sym_index = 0, symbol = syms ! 0,
                   current_sym_candles = [], result_future = Pending\<rparr>;
             c0 = add_event_handler h client
         in
         case send ''chart_create_session'' [JStr cs, JStr ''''] c0 of
           (Inl e, c1) \<Rightarrow> (RaisedNow e, c1)
         | (Inr u, c1) \<Rightarrow>
             (case send ''resolve_symbol'' (resolve_symbol_params cs 0 (symbol st)) c1 of
                (Inl e, c2) \<Rightarrow> (RaisedNow e, c2)
              | (Inr u, c2) \<Rightarrow>
                  (case send ''create_series''
                          [JStr cs, JStr ''sds_1'', JStr ''s0'', JStr ''sds_sym_0'',
                           JStr (str_timeframe tf), JInt (batch_size amt), JStr ''''] c2 of
                     (Inl e, c3) \<Rightarrow> (RaisedNow e, c3)
                   | (Inr u, c3) \<Rightarrow> (Awaiting env st, c3)))))"

text \<open>
  The states of the closure in a run of a fetch: the state that \<open>get_candles\<close> sets up
  for a non-empty symbol list, the state after any call of the handler that has not
  asked for its removal (a handler that has is called no more), and the state after a
  cancellation of the pending future. Between two calls the client may be in any state.
\<close>

inductive reachable :: "fetch \<Rightarrow> fetch_state \<Rightarrow> bool" where
  start: "symbols env \<noteq> [] \<Longrightarrow>
    reachable env \<lparr>all_candles = [], current_sym_index = 0, symbol = symbols env ! 0,
      current_sym_candles = [], result_future = Pending\<rparr>"
| step: "reachable env st \<Longrightarrow> handle_event env ev (st, c) = (r, st', c') \<Longrightarrow>
    r \<noteq> Returned True \<Longrightarrow> reachable env st'"
| cancel: "reachable env st \<Longrightarrow> result_future st = Pending \<Longrightarrow>
    reachable env (st\<lparr>result_future := Cancelled\<rparr>)"

text \<open>
  The condition for another page, in the words of the specification: the accumulated
  row count is positive, is an exact multiple of the batch size, and either no amount
  cap was given or fewer rows than the amount have been accumulated.
\<close>

definition page_due :: "int option \<Rightarrow> nat \<Rightarrow> bool" where
  "page_due amt n =
     (0 < n \<and> batch_size amt dvd int n \<and>
      (case amt of None \<Rightarrow> True | Some a \<Rightarrow> int n < a))"

subsection \<open>Sample fetches\<close>

text \<open>
  For the instances below: row \<open>k\<close> has the timestamp \<open>k\<close> and \<open>candle_at k\<close> is its
  candle; \<open>sample_fetch\<close> is a fetch of the given symbols with the given amount, and
  \<open>loading i s rows\<close> the state of its closure while symbol \<open>i\<close>, named \<open>s\<close>, is loaded with
  \<open>rows\<close> accumulated and the candles \<open>got\<close> of the symbols before it.
\<close>

definition row :: "int \<Rightarrow> json" where
  "row k = JObj [(''i'', JInt k),
     (''v'', JArr [JInt k, JInt 10, JInt 12, JInt 9, JInt 11, JInt 100])]"

definition candle_at :: "int \<Rightarrow> candle" where
  "candle_at k = \<lparr>timestamp = JInt k, high = JInt 12, low = JInt 9, open = JInt 10,
     close = JInt 11, volume = JInt 100\<rparr>"

definition timescale_update :: "json list \<Rightarrow> event" where
  "timescale_update rows =
     \<lparr>name = JStr ''timescale_update'',
      params = JArr [JStr ''cs_test'', JObj [(''sds_1'', JObj [(''s'', JArr rows)])]]\<rparr>"

definition series_completed :: event where
  "series_completed = \<lparr>name = JStr ''series_completed'', params = JArr [JStr ''cs_test'']\<rparr>"

definition sample_fetch :: "string list \<Rightarrow> int option \<Rightarrow> fetch" where
  "sample_fetch syms amt =
     \<lparr>symbols = syms, amount = amt, timeframe = TfInt 60, chart_session = ''cs_test''\<rparr>"

definition loading :: "candle list list \<Rightarrow> nat \<Rightarrow> string \<Rightarrow> json list \<Rightarrow> fetch_state" where
  "loading got i s rows =
     \<lparr>all_candles = got, current_sym_index = i, symbol = s, current_sym_candles = rows,
      result_future = Pending\<rparr>"

section \<open>Properties of the frame codec\<close>



lemma str_nat_digits: "\<forall>c \<in> set (str_nat n). is_digit c"
proof (induction n rule: str_nat.induct)
  case (1 n)
  have d: "\<And>k. k < 10 \<Longrightarrow> is_digit (digit_char k)"
    by (simp add: is_digit_def digit_char_def)
  show ?case
  proof (cases "n < 10")
    case True
    then show ?thesis by (subst str_nat.simps) (simp add: d)
  next
    case False
    with 1 show ?thesis by (subst str_nat.simps) (simp add: d)
  qed
qed

lemma str_nat_nonempty: "str_nat n \<noteq> []"
  by (subst str_nat.simps) simp

lemma not_digit_tilde: "\<not> is_digit CHR ''~''"
  by (simp add: is_digit_def)

lemma takeWhile_str_nat: "takeWhile is_digit (str_nat n @ CHR ''~'' # rest) = str_nat n"
  using str_nat_digits [of n] by (simp add: takeWhile_append2 not_digit_tilde)

lemma dropWhile_str_nat: "dropWhile is_digit (str_nat n @ CHR ''~'' # rest) = CHR ''~'' # rest"
  using str_nat_digits [of n] by (simp add: dropWhile_append2 not_digit_tilde)

lemma match_delim_frame: "match_delim (frame data) = Some data"
  by (simp add: match_delim_def frame_def takeWhile_str_nat dropWhile_str_nat str_nat_nonempty)

lemma match_delim_Nil: "match_delim [] = None"
  by (simp add: match_delim_def)

lemma re_split_from_no_delim: "\<not> has_delim s \<Longrightarrow> re_split_from cur s = [rev cur @ s]"
proof (induction s arbitrary: cur)
  case Nil
  then show ?case by (subst re_split_from.simps) (simp add: match_delim_Nil)
next
  case (Cons c s)
  then show ?case by (subst re_split_from.simps) simp
qed

lemma re_split_frame: "\<not> has_delim data \<Longrightarrow> re_split (frame data) = [[], data]"
  unfolding re_split_def
  by (subst re_split_from.simps) (simp add: match_delim_frame re_split_from_no_delim)

lemma frame_nonempty: "frame data \<noteq> []"
  by (simp add: frame_def)

lemma json_dumps_obj_not_ping: "\<not> startswith (json_dumps (JObj kvs)) ''~h~''"
  by (simp add: startswith_def)











text \<open>
  Claim C2, as amended. \<open>send(name, params)\<close> queues \<open>encode name params\<close>. When the JSON
  text of the message holds no delimiter \<open>~m~<digits>~m~\<close>, and the decoder gives back
  the message from that text, decoding the frame yields exactly one \<open>Event\<close> frame and
  prints nothing, and the event built from it has the name and the parameters that
  were sent.
\<close>

theorem encode_decode_event:
  assumes nodelim: "\<not> has_delim (json_dumps (JObj [(''m'', JStr nm), (''p'', JArr ps)]))"
    and inverse: "loads (json_dumps (JObj [(''m'', JStr nm), (''p'', JArr ps)])) =
      Inr (JObj [(''m'', JStr nm), (''p'', JArr ps)])"
  shows "parse_message loads (encode nm ps) =
           (Inr [Event (JObj [(''m'', JStr nm), (''p'', JArr ps)])], [])
         \<and> event_of (JObj [(''m'', JStr nm), (''p'', JArr ps)]) =
           Inr \<lparr>name = JStr nm, params = JArr ps\<rparr>"
proof -
  let ?obj = "JObj [(''m'', JStr nm), (''p'', JArr ps)]"
  have segs: "tl (re_split (encode nm ps)) = [json_dumps ?obj]"
    using re_split_frame [OF nodelim] by (simp add: encode_def)
  have noping: "\<not> startswith (json_dumps ?obj) ''~h~''"
    by (rule json_dumps_obj_not_ping)
  have nosession: "py_in ''session_id'' ?obj = Inr False"
    by simp
  have "parse_events loads [json_dumps ?obj] [] [] = (Inr [Event ?obj], [])"
    using noping inverse nosession by simp
  then have a: "parse_message loads (encode nm ps) = (Inr [Event ?obj], [])"
    using segs by (simp add: parse_message_def encode_def frame_nonempty)
  have b: "event_of ?obj = Inr \<lparr>name = JStr nm, params = JArr ps\<rparr>"
    by (simp add: event_of_def)
  from a b show ?thesis by simp
qed

text \<open>The theorem at a \<open>request_more_data\<close> message, with the modelled decoder.\<close>

theorem encode_decode_event_witness:
  "parse_message json_loads (encode ''request_more_data'' [JStr ''cs_aB3'', JStr ''sds_1'', JInt 5000]) =
     (Inr [Event (JObj [(''m'', JStr ''request_more_data''),
                        (''p'', JArr [JStr ''cs_aB3'', JStr ''sds_1'', JInt 5000])])], [])
   \<and> event_of (JObj [(''m'', JStr ''request_more_data''),
                     (''p'', JArr [JStr ''cs_aB3'', JStr ''sds_1'', JInt 5000])]) =
     Inr \<lparr>name = JStr ''request_more_data'',
          params = JArr [JStr ''cs_aB3'', JStr ''sds_1'', JInt 5000]\<rparr>"
proof -
  let ?ps = "[JStr ''cs_aB3'', JStr ''sds_1'', JInt 5000]"
  have nodelim: "\<not> has_delim (json_dumps (JObj [(''m'', JStr ''request_more_data''), (''p'', JArr ?ps)]))"
    by code_simp
  have inverse: "json_loads (json_dumps (JObj [(''m'', JStr ''request_more_data''), (''p'', JArr ?ps)])) =
      Inr (JObj [(''m'', JStr ''request_more_data''), (''p'', JArr ?ps)])"
    by code_simp
  from encode_decode_event [where loads = json_loads, OF nodelim inverse] show ?thesis .
qed

text \<open>
  Claim C2 as stated fails: \<open>json.dumps\<close> leaves \<open>~\<close> as it is, so a name that holds a
  delimiter is cut in two by \<open>re.split\<close>. Neither piece is JSON, and the decode of the
  frame for the name \<open>~m~1~m~\<close> with no parameters yields no frame at all.
\<close>

theorem encode_decode_counterexample:
  "parse_message json_loads (encode ''~m~1~m~'' []) =
     (Inr [], [ParseFailure ''{\"m\": \"'', ParseFailure ''\", \"p\": []}''])"
  by code_simp

section \<open>Properties of the connection\<close>

text \<open>
  Claim C6, as amended. \<open>send\<close> tests \<open>self.websocket\<close>, not \<open>self.connected\<close>: on a client
  whose socket has not been closed it raises \<open>RuntimeError("Not connected to
  TradingView")\<close> exactly when there is no socket yet, and otherwise queues the frame
  \<open>~m~<length>~m~<JSON>\<close>, whatever \<open>connected\<close> says.
\<close>

theorem send_open_socket:
  assumes "websocket c \<noteq> Some WsClosed"
  shows "send nm ps c =
     (if websocket c = None then (Inl (RuntimeError ''Not connected to TradingView''), c)
      else (Inr (), c\<lparr>outbox := outbox c @
        [''~m~'' @ str_nat (length (json_dumps (JObj [(''m'', JStr nm), (''p'', JArr ps)]))) @ ''~m~'' @
         json_dumps (JObj [(''m'', JStr nm), (''p'', JArr ps)])]\<rparr>))"
  by (simp add: send_def encode_def frame_def)

text \<open>
  The theorem during the handshake: the socket is open, \<open>connected\<close> is still \<open>False\<close>.
\<close>

theorem send_open_socket_witness:
  "send ''set_auth_token'' [JStr ''tok'']
     \<lparr>websocket = Some WsOpen, connected = False, subscribers = {0}, outbox = [], stdout = []\<rparr> =
   (Inr (), \<lparr>websocket = Some WsOpen, connected = False, subscribers = {0},
      outbox = [''~m~37~m~{\"m\": \"set_auth_token\", \"p\": [\"tok\"]}''], stdout = []\<rparr>)"
proof -
  let ?c = "\<lparr>websocket = Some WsOpen, connected = False, subscribers = {0::nat},
    outbox = [], stdout = []\<rparr>"
  have h: "websocket ?c \<noteq> Some WsClosed" by simp
  have e: "''~m~'' @ str_nat (length (json_dumps (JObj [(''m'', JStr ''set_auth_token''), (''p'', JArr [JStr ''tok''])]))) @ ''~m~'' @
      json_dumps (JObj [(''m'', JStr ''set_auth_token''), (''p'', JArr [JStr ''tok''])]) =
      ''~m~37~m~{\"m\": \"set_auth_token\", \"p\": [\"tok\"]}''"
    by code_simp
  note inst = send_open_socket [OF h, of "''set_auth_token''" "[JStr ''tok'']", unfolded e]
  from inst show ?thesis
    by simp
qed

text \<open>
  Claim C6 as stated fails: before the handshake is complete (\<open>connected\<close> is \<open>False\<close>)
  a send on an open socket does not raise. \<open>on_session\<close> relies on it: it sends
  \<open>set_auth_token\<close> before it sets \<open>connected\<close>.
\<close>

theorem send_before_connected_counterexample:
  "fst (send ''set_auth_token'' [JStr ''tok'']
     \<lparr>websocket = Some WsOpen, connected = False, subscribers = {0}, outbox = [], stdout = []\<rparr>) =
   Inr ()"
  by (simp add: send_def)

section \<open>Properties of the event bus\<close>

text \<open>
  A publish over handlers that leave the set of subscribers alone and raise nothing but
  \<open>Exception\<close>s runs as the reference \<open>deliveries\<close> does, and then removes the handlers
  that asked for it.
\<close>

lemma subscribers_report: "subscribers (report r c) = subscribers c"
  by (cases r) (simp_all add: report_def)

lemma deliveries_subscribers:
  assumes keep: "\<forall>h s. subscribers (snd (run h ev s)) = subscribers s"
  shows "subscribers (snd (deliveries run ev hs c)) = subscribers c"
proof (induction hs arbitrary: c)
  case Nil
  show ?case by simp
next
  case (Cons h hs)
  obtain r c1 where r: "run h ev c = (r, c1)" by (cases "run h ev c")
  with keep have k: "subscribers c1 = subscribers c"
    by (metis snd_conv)
  show ?case
    using r k Cons.IH [of "report r c1"]
    by (simp add: subscribers_report split_def)
qed

lemma deliveries_handlers: "map fst (fst (deliveries run ev hs c)) = hs"
  by (induction hs arbitrary: c) (simp_all add: split_def)

lemma notify_loop_deliveries:
  assumes keep: "\<forall>h s. subscribers (snd (run h ev s)) = subscribers s"
  shows "card (subscribers c) = n \<Longrightarrow>
    \<forall>h e. (h, Raised e) \<in> set (fst (deliveries run ev hs c)) \<longrightarrow> is_exception e \<Longrightarrow>
    notify_loop run ev n hs rm c =
      (Inr (rm @ returned_true (fst (deliveries run ev hs c))), snd (deliveries run ev hs c))"
proof (induction hs arbitrary: rm c)
  case Nil
  then show ?case by (simp add: returned_true_def)
next
  case (Cons h hs)
  obtain r c1 where r: "run h ev c = (r, c1)" by (cases "run h ev c")
  with keep have k: "subscribers c1 = subscribers c"
    by (metis snd_conv)
  then have n1: "card (subscribers (report r c1)) = n"
    using Cons.prems(1) by (simp add: subscribers_report)
  have calls: "fst (deliveries run ev (h # hs) c) =
      (h, r) # fst (deliveries run ev hs (report r c1))"
    using r by (simp add: split_def)
  have rest: "\<forall>h e. (h, Raised e) \<in> set (fst (deliveries run ev hs (report r c1))) \<longrightarrow>
      is_exception e"
    using Cons.prems(2) unfolding calls by simp
  note IH = Cons.IH [OF n1 rest]
  show ?case
  proof (cases r)
    case (Returned b)
    with r Cons.prems(1) IH show ?thesis
      by (simp add: returned_true_def report_def split_def)
  next
    case (Raised e)
    have "is_exception e"
      using Cons.prems(2) unfolding calls Raised by simp
    with Raised r Cons.prems(1) IH show ?thesis
      by (simp add: returned_true_def split_def)
  qed
qed

lemma foldl_discard: "foldl (\<lambda>s h. s - {h}) S hs = S - set hs"
  by (induction hs arbitrary: S) auto

lemma notify_subscribers_deliveries:
  assumes keep: "\<forall>h s. subscribers (snd (run h ev s)) = subscribers s"
    and calls: "deliveries run ev (iter (subscribers c)) c = (calls, c')"
    and caught: "\<forall>h e. (h, Raised e) \<in> set calls \<longrightarrow> is_exception e"
  shows "notify_subscribers iter run ev c =
    (Inr (), c'\<lparr>subscribers := subscribers c - set (returned_true calls)\<rparr>)"
proof -
  have s: "subscribers c' = subscribers c"
    using deliveries_subscribers [where run = run and ev = ev, OF keep, of "iter (subscribers c)" c] calls by simp
  have caught': "\<forall>h e. (h, Raised e) \<in> set (fst (deliveries run ev (iter (subscribers c)) c)) \<longrightarrow>
      is_exception e"
    using caught calls by simp
  show ?thesis
    using notify_loop_deliveries [where run = run and ev = ev, OF keep refl caught', of "[]"] calls s
    by (simp add: notify_subscribers_def foldl_discard)
qed

lemma returned_true_set: "set (returned_true calls) = {h. (h, Returned True) \<in> set calls}"
  by (auto simp: returned_true_def image_iff)

lemma sample_handlers_keep:
  "\<forall>h s. subscribers (snd (sample_handlers h some_event s)) = subscribers s"
  by (simp add: sample_handlers_def)

text \<open>
  Claim C8, as amended. Take a publish to any set of registered handlers that do not
  change the set of subscribers while they run, visited in the iteration order \<open>iter\<close> of
  the set, and in which whatever a handler raises is an \<open>Exception\<close>. The publish does not
  abort: it returns normally. Every registered handler is invoked, whatever the others
  did: the calls made are those of the whole iteration, one per handler, each error
  being reported. A handler that raised is still registered afterwards; only the
  handlers that returned a true value are removed.
\<close>

theorem handler_fault_isolated:
  assumes keep: "\<forall>h s. subscribers (snd (run h ev s)) = subscribers s"
    and enum: "set (iter (subscribers c)) = subscribers c"
    and once: "distinct (iter (subscribers c))"
    and calls: "deliveries run ev (iter (subscribers c)) c = (calls, c')"
    and caught: "\<forall>h e. (h, Raised e) \<in> set calls \<longrightarrow> is_exception e"
  shows "notify_subscribers iter run ev c =
           (Inr (), c'\<lparr>subscribers := subscribers c - {h. (h, Returned True) \<in> set calls}\<rparr>)
         \<and> map fst calls = iter (subscribers c)
         \<and> (\<forall>h e. (h, Raised e) \<in> set calls \<longrightarrow>
               h \<in> subscribers (snd (notify_subscribers iter run ev c)))"
proof -
  have a: "notify_subscribers iter run ev c =
      (Inr (), c'\<lparr>subscribers := subscribers c - {h. (h, Returned True) \<in> set calls}\<rparr>)"
    using notify_subscribers_deliveries [where run = run and ev = ev and iter = iter and c = c,
        OF keep calls caught]
    by (simp add: returned_true_set)
  have b: "map fst calls = iter (subscribers c)"
    using deliveries_handlers [of run ev "iter (subscribers c)" c] calls by simp
  have d: "distinct (map fst calls)"
    using b once by simp
  have c: "h \<in> subscribers (snd (notify_subscribers iter run ev c))"
    if "(h, Raised e) \<in> set calls" for h e
  proof -
    from that have "h \<in> set (map fst calls)" by force
    with b enum have reg: "h \<in> subscribers c" by simp
    have "(h, Returned True) \<notin> set calls"
    proof
      assume "(h, Returned True) \<in> set calls"
      with that d have "Raised e = Returned True"
        by (meson eq_key_imp_eq_value)
      then show False by simp
    qed
    with reg a show ?thesis by simp
  qed
  from a b c show ?thesis by blast
qed

text \<open>
  The theorem at three handlers: the first raises a \<open>TypeError\<close>, the second asks for its
  removal, the third returns \<open>False\<close>. All three run, the error is printed, and the first
  stays.
\<close>

theorem handler_fault_isolated_witness:
  "notify_subscribers sorted_list_of_set sample_handlers some_event
     (idle_client\<lparr>subscribers := {1, 2, 3}\<rparr>) =
   (Inr (), idle_client\<lparr>subscribers := {1, 3}, outbox := [''one'', ''two'', ''other''],
      stdout := [HandlerError TypeError]\<rparr>)"
proof -
  let ?c = "idle_client\<lparr>subscribers := {1, 2, 3}\<rparr>"
  have l: "sorted_list_of_set (subscribers ?c) = [1, 2, 3]"
    by (simp add: idle_client_def)
  have enum: "set (sorted_list_of_set (subscribers ?c)) = subscribers ?c"
    unfolding l by (auto simp: idle_client_def)
  have once: "distinct (sorted_list_of_set (subscribers ?c))"
    unfolding l by simp
  have calls: "deliveries sample_handlers some_event (sorted_list_of_set (subscribers ?c)) ?c =
    ([(1, Raised TypeError), (2, Returned True), (3, Returned False)],
     idle_client\<lparr>subscribers := {1, 2, 3}, outbox := [''one'', ''two'', ''other''],
       stdout := [HandlerError TypeError]\<rparr>)"
    unfolding l by (simp add: sample_handlers_def report_def idle_client_def)
  have caught: "\<forall>h e. (h, Raised e) \<in>
      set [(1::nat, Raised TypeError), (2, Returned True), (3, Returned False)] \<longrightarrow> is_exception e"
    by (simp add: is_exception_def)
  from handler_fault_isolated [where run = sample_handlers and ev = some_event
      and iter = sorted_list_of_set and c = ?c, OF sample_handlers_keep enum once calls caught]
  show ?thesis
    by (auto simp: idle_client_def)
qed

text \<open>
  Claim C8 as stated fails: \<open>except Exception\<close> does not catch what derives from
  \<open>BaseException\<close> only. Of the handlers 3, 4 and 5, handler 4 raises \<open>CancelledError\<close>:
  the publish aborts with that error, nothing is printed, and handler 5 is not invoked.
\<close>

theorem cancelled_handler_counterexample:
  "notify_subscribers sorted_list_of_set sample_handlers some_event
     (idle_client\<lparr>subscribers := {3, 4, 5}\<rparr>) =
   (Inl CancelledError, idle_client\<lparr>subscribers := {3, 4, 5}, outbox := [''other'', ''four'']\<rparr>)"
proof -
  have l: "sorted_list_of_set {3, 4, 5 :: nat} = [3, 4, 5]"
    by simp
  have n: "card {3, 4, 5 :: nat} = 3"
    by simp
  show ?thesis
    by (simp add: notify_subscribers_def idle_client_def l n sample_handlers_def
        is_exception_def)
qed

text \<open>
  Claim C9, as amended. \<open>subscribers\<close> is a Python set, so a publish visits the handlers
  in the iteration order of the set, which need not be the order of their registration.
  For handlers that do not change the set of subscribers while they run and that raise
  nothing but \<open>Exception\<close>s, every handler registered at the publish is invoked exactly
  once, in that iteration order, and the handlers that return a true value are removed
  only after the loop: such a removal skips no handler and invokes none twice.
\<close>

theorem publish_each_handler_once:
  assumes keep: "\<forall>h s. subscribers (snd (run h ev s)) = subscribers s"
    and enum: "set (iter (subscribers c)) = subscribers c"
    and once: "distinct (iter (subscribers c))"
    and calls: "deliveries run ev (iter (subscribers c)) c = (calls, c')"
    and caught: "\<forall>h e. (h, Raised e) \<in> set calls \<longrightarrow> is_exception e"
  shows "notify_subscribers iter run ev c =
           (Inr (), c'\<lparr>subscribers := {h \<in> subscribers c. (h, Returned True) \<notin> set calls}\<rparr>)
         \<and> map fst calls = iter (subscribers c)
         \<and> distinct (map fst calls)
         \<and> set (map fst calls) = subscribers c"
proof -
  have eq: "subscribers c - set (returned_true calls) =
      {h \<in> subscribers c. (h, Returned True) \<notin> set calls}"
    by (auto simp: returned_true_set)
  have a: "notify_subscribers iter run ev c =
      (Inr (), c'\<lparr>subscribers := {h \<in> subscribers c. (h, Returned True) \<notin> set calls}\<rparr>)"
    using notify_subscribers_deliveries [where run = run and ev = ev and iter = iter and c = c,
        OF keep calls caught]
    by (simp only: eq)
  have b: "map fst calls = iter (subscribers c)"
    using deliveries_handlers [of run ev "iter (subscribers c)" c] calls by simp
  from a b once enum show ?thesis by simp
qed

text \<open>
  The theorem at three handlers, the first of which asks for its removal: the two
  after it are still invoked, once each.
\<close>

theorem publish_each_handler_once_witness:
  "notify_subscribers sorted_list_of_set sample_handlers some_event
     (idle_client\<lparr>subscribers := {2, 3, 5}\<rparr>) =
   (Inr (), idle_client\<lparr>subscribers := {3, 5}, outbox := [''two'', ''other'', ''other'']\<rparr>)"
proof -
  let ?c = "idle_client\<lparr>subscribers := {2, 3, 5}\<rparr>"
  have l: "sorted_list_of_set (subscribers ?c) = [2, 3, 5]"
    by (simp add: idle_client_def)
  have enum: "set (sorted_list_of_set (subscribers ?c)) = subscribers ?c"
    unfolding l by (auto simp: idle_client_def)
  have once: "distinct (sorted_list_of_set (subscribers ?c))"
    unfolding l by simp
  have calls: "deliveries sample_handlers some_event (sorted_list_of_set (subscribers ?c)) ?c =
    ([(2, Returned True), (3, Returned False), (5, Returned False)],
     idle_client\<lparr>subscribers := {2, 3, 5}, outbox := [''two'', ''other'', ''other'']\<rparr>)"
    unfolding l by (simp add: sample_handlers_def report_def idle_client_def)
  have caught: "\<forall>h e. (h, Raised e) \<in>
      set [(2::nat, Returned True), (3, Returned False), (5, Returned False)] \<longrightarrow> is_exception e"
    by simp
  from publish_each_handler_once [where run = sample_handlers and ev = some_event
      and iter = sorted_list_of_set and c = ?c, OF sample_handlers_keep enum once calls caught]
  show ?thesis
    by (auto simp: idle_client_def)
qed

text \<open>
  Claim C9 as stated fails. Handler 2 is registered first and handler 1 after it. With
  the identities read as the slots of the hash table, the set iterates in their order,
  and handler 1 is invoked before handler 2.
\<close>

theorem registration_order_counterexample:
  "outbox (snd (notify_subscribers sorted_list_of_set announce some_event
     (add_event_handler 1 (add_event_handler 2 idle_client)))) = [''1'', ''2'']"
proof -
  have s: "subscribers (add_event_handler 1 (add_event_handler 2 idle_client)) = {1, 2}"
    by (simp add: add_event_handler_def idle_client_def)
  have l: "sorted_list_of_set {1, 2 :: nat} = [1, 2]"
    by simp
  have n1: "str_nat (Suc 0) = ''1''"
    by code_simp
  have n2: "str_nat 2 = ''2''"
    by code_simp
  show ?thesis
    by (simp add: notify_subscribers_def s l announce_def n1 n2 add_event_handler_def
        idle_client_def)
qed

end
